theory Spec2Isabelle
  imports Main "HOL-Library.Sublist"
begin

section \<open>JSON values and the Python operations the wrapper applies to them\<close>

text \<open>
  What \<open>json.loads\<close> returns: \<open>None\<close>, booleans, numbers, strings, lists and dicts.
  A dict is an association list with distinct keys. Python strings are lists of characters.
\<close>

datatype json = JNull | JBool bool | JNum int | JStr string | JArr "json list"
  | JObj "(string \<times> json) list"

text \<open>\<open>v[k]\<close> for a string key \<open>k\<close>; \<open>None\<close> where Python raises (KeyError, TypeError).\<close>

definition getitem :: "json \<Rightarrow> string \<Rightarrow> json option" where
  "getitem v k = (case v of JObj kvs \<Rightarrow> map_of kvs k | _ \<Rightarrow> None)"

text \<open>\<open>s in t\<close> on two strings: \<open>s\<close> occurs in \<open>t\<close> as a contiguous substring.\<close>

fun contains :: "string \<Rightarrow> string \<Rightarrow> bool" where
  "contains s [] = (s = [])"
| "contains s (c # cs) = (prefix s (c # cs) \<or> contains s cs)"

text \<open>
  \<open>k in v\<close> for a string \<open>k\<close>: key membership on a dict, element membership on a list,
  substring test on a string; \<open>None\<close> where Python raises TypeError.
\<close>

definition py_in :: "string \<Rightarrow> json \<Rightarrow> bool option" where
  "py_in k v =
     (case v of
        JObj kvs \<Rightarrow> Some (k \<in> set (map fst kvs))
      | JArr xs \<Rightarrow> Some (JStr k \<in> set xs)
      | JStr s \<Rightarrow> Some (contains k s)
      | _ \<Rightarrow> None)"

text \<open>Python truthiness of a value, as \<open>not v\<close> and \<open>if v\<close> use it.\<close>

definition truthy :: "json \<Rightarrow> bool" where
  "truthy v =
     (case v of
        JNull \<Rightarrow> False
      | JBool b \<Rightarrow> b
      | JNum n \<Rightarrow> n \<noteq> 0
      | JStr s \<Rightarrow> s \<noteq> []
      | JArr xs \<Rightarrow> xs \<noteq> []
      | JObj kvs \<Rightarrow> kvs \<noteq> [])"

text \<open>
  The strings \<open>sep.join(v)\<close> iterates over: the elements of a list when all of them are
  strings, the characters of a string, the keys of a dict; \<open>None\<close> where join raises.
\<close>

fun the_str :: "json \<Rightarrow> string option" where
  "the_str (JStr s) = Some s"
| "the_str _ = None"

fun all_strs :: "json list \<Rightarrow> string list option" where
  "all_strs [] = Some []"
| "all_strs (x # xs) =
     (case the_str x of
        None \<Rightarrow> None
      | Some s \<Rightarrow> (case all_strs xs of None \<Rightarrow> None | Some ss \<Rightarrow> Some (s # ss)))"

definition str_items :: "json \<Rightarrow> string list option" where
  "str_items v =
     (case v of
        JArr xs \<Rightarrow> all_strs xs
      | JStr s \<Rightarrow> Some (map (\<lambda>c. [c]) s)
      | JObj kvs \<Rightarrow> Some (map fst kvs)
      | _ \<Rightarrow> None)"

fun join :: "string \<Rightarrow> string list \<Rightarrow> string" where
  "join sep [] = []"
| "join sep [x] = x"
| "join sep (x # y # ys) = x @ sep @ join sep (y # ys)"

section \<open>Client state\<close>

datatype error = NetworkError | NotLoggedInError | ChatGPTResponseError | TypeError | KeyError
  | PageError

text \<open>
  The calls made on the browser page and the activations of the streaming ask, in order:
  the session endpoint is loaded, the request code is handed to \<open>page.evaluate\<close> with the
  bearer token and the request substituted in, the two marker elements are removed, the
  title endpoint is posted to.
\<close>

datatype event = Invoked int | Refreshed | Evaluate string json | CleanupDivs | GenTitle

text \<open>
  The fields both classes have. The session is the class attribute \<open>AsyncChatGPT.session\<close>
  (\<open>self.browser.session\<close> in the synchronous class); \<open>timeout\<close> is in seconds.
\<close>

record client =
  session :: json
  parent_message_id :: json
  conversation_id :: json
  timeout :: int
  trace :: "event list"

text \<open>\<open>AsyncChatGPT\<close>: \<open>locked\<close> is the state of the class-wide \<open>asyncio.Lock\<close>.\<close>

record async_chatgpt = client +
  locked :: bool

text \<open>\<open>ChatGPT\<close>, the synchronous class.\<close>

record chatgpt = client +
  model :: string
  conversation_title_set :: bool

section \<open>One polling iteration: reading the stream marker\<close>

text \<open>
  What one iteration of the polling loop sees: the clock reading \<open>time.time() - start_time\<close>
  it takes, the number of elements matching the end-of-stream marker, and for each element
  matching the stream marker the bytes \<open>base64.b64decode\<close> gives for its content
  (\<open>None\<close> where b64decode raises).
\<close>

record poll =
  elapsed :: int
  eof_datas :: nat
  conversation_datas :: "string option list"

text \<open>
  What a \<open>yield\<close> hands to the caller. The caller receives the text only; a delta is kept
  together with the cumulative message \<open>last_event_msg\<close> it was cut from.
\<close>

datatype yielded = Delta (chunk: string) (cumulative: string) | Notice (chunk: string)

text \<open>
  The body of the \<open>try\<close> block of the loop. The result is the client after the assignments
  that were reached, and \<open>None\<close> when an exception was raised inside the block, otherwise
  the value of \<open>full_event_message\<close>. \<open>loads\<close> is \<open>json.loads\<close>.
\<close>

definition read_event ::
  "(string \<Rightarrow> json option) \<Rightarrow> string option \<Rightarrow> 'a client_scheme
     \<Rightarrow> 'a client_scheme \<times> string option option" where
  "read_event loads decoded st =
     (case decoded of
        None \<Rightarrow> (st, None)
      | Some event_raw \<Rightarrow>
          if length event_raw > 0 then
            (case loads event_raw of
               None \<Rightarrow> (st, None)
             | Some event \<Rightarrow>
                 if event \<noteq> JNull then
                   (case getitem event ''message'' of
                      None \<Rightarrow> (st, None)
                    | Some message \<Rightarrow>
                        (case getitem message ''id'' of
                           None \<Rightarrow> (st, None)
                         | Some mid \<Rightarrow>
                             (let st1 = st\<lparr>parent_message_id := mid\<rparr> in
                              case getitem event ''conversation_id'' of
                                None \<Rightarrow> (st1, None)
                              | Some cid \<Rightarrow>
                                  (let st2 = st1\<lparr>conversation_id := cid\<rparr> in
                                   case getitem message ''content'' of
                                     None \<Rightarrow> (st2, None)
                                   | Some content \<Rightarrow>
                                       (case getitem content ''parts'' of
                                          None \<Rightarrow> (st2, None)
                                        | Some parts \<Rightarrow>
                                            (case str_items parts of
                                               None \<Rightarrow> (st2, None)
                                             | Some ss \<Rightarrow>
                                                 (st2, Some (Some (join [CHR 0x0A] ss)))))))))
                 else (st, Some None))
          else (st, Some None))"

section \<open>The polling loops\<close>

text \<open>
  How a loop was left: by \<open>break\<close>, through the \<open>else\<close> branch of the \<open>while\<close> (its
  condition became false), by the exception handler, or not at all within the iterations
  that were recorded.
\<close>

datatype loop_exit = Break | Else | Error | Running

text \<open>
  The loop of \<open>async_ask_stream\<close>. The condition is tested at the head of every iteration,
  also after \<open>continue\<close>.
\<close>

fun poll_async ::
  "(string \<Rightarrow> json option) \<Rightarrow> poll list \<Rightarrow> string \<Rightarrow> string option \<Rightarrow> 'a client_scheme
     \<Rightarrow> yielded list \<times> loop_exit \<times> 'a client_scheme" where
  "poll_async loads [] last_event_msg full_event_message st = ([], Running, st)"
| "poll_async loads (p # ps) last_event_msg full_event_message st =
     (if elapsed p \<le> timeout st \<or> full_event_message \<noteq> None then
        (case conversation_datas p of
           [] \<Rightarrow> poll_async loads ps last_event_msg full_event_message st
         | d # _ \<Rightarrow>
             (case read_event loads d st of
                (st1, None) \<Rightarrow> ([], Error, st1)
              | (st1, Some None) \<Rightarrow>
                  if eof_datas p > 0 then ([], Break, st1)
                  else poll_async loads ps last_event_msg None st1
              | (st1, Some (Some msg)) \<Rightarrow>
                  (let delta = drop (length last_event_msg) msg in
                   if eof_datas p > 0 then ([Delta delta msg], Break, st1)
                   else (case poll_async loads ps msg (Some msg) st1 of
                           (ys, ex, st2) \<Rightarrow> (Delta delta msg # ys, ex, st2)))))
      else ([], Else, st))"

text \<open>The text the synchronous loop yields when reading the event fails.\<close>

definition failed_to_read :: string where
  "failed_to_read =
     ''Failed to read response from ChatGPT.  Tips:'' @ [CHR 0x0A] @
     '' * Try again.  ChatGPT can be flaky.'' @ [CHR 0x0A] @
     '' * Use the '' @ [CHR 0x60] @ ''session'' @ [CHR 0x60] @
     '' command to refresh your session, and then try again.'' @ [CHR 0x0A] @
     '' * Restart the program in the '' @ [CHR 0x60] @ ''install'' @ [CHR 0x60] @
     '' mode and make sure you are logged in.''"

text \<open>
  The loop of \<open>ask_stream\<close>: \<open>while True\<close>, the clock is read at the end of an iteration
  only, and \<open>continue\<close> skips that test.
\<close>

fun poll_sync ::
  "(string \<Rightarrow> json option) \<Rightarrow> poll list \<Rightarrow> string \<Rightarrow> 'a client_scheme
     \<Rightarrow> yielded list \<times> loop_exit \<times> 'a client_scheme" where
  "poll_sync loads [] last_event_msg st = ([], Running, st)"
| "poll_sync loads (p # ps) last_event_msg st =
     (case conversation_datas p of
        [] \<Rightarrow> poll_sync loads ps last_event_msg st
      | d # _ \<Rightarrow>
          (case read_event loads d st of
             (st1, None) \<Rightarrow> ([Notice failed_to_read], Break, st1)
           | (st1, Some None) \<Rightarrow>
               if eof_datas p > 0 \<or> elapsed p > timeout st1 then ([], Break, st1)
               else poll_sync loads ps last_event_msg st1
           | (st1, Some (Some msg)) \<Rightarrow>
               (let delta = drop (length last_event_msg) msg in
                if eof_datas p > 0 then ([Delta delta msg], Break, st1)
                else (case poll_sync loads ps msg st1 of
                        (ys, ex, st2) \<Rightarrow> (Delta delta msg # ys, ex, st2)))))"

section \<open>Session refresh\<close>

text \<open>\<open>contents.find(c)\<close>: the first index of \<open>c\<close>, \<open>None\<close> for the result \<open>-1\<close>.\<close>

fun str_find :: "char \<Rightarrow> string \<Rightarrow> nat option" where
  "str_find c [] = None"
| "str_find c (x # xs) = (if x = c then Some 0 else map_option Suc (str_find c xs))"

text \<open>
  The \<open>for\<close> loop over \<open>range(len(contents)-1, -1, -1)\<close> that looks for the closing brace:
  \<open>scan_back contents n\<close> has the indices below \<open>n\<close> left to visit, and is \<open>None\<close> when the
  loop ends without \<open>break\<close>.
\<close>

fun scan_back :: "string \<Rightarrow> nat \<Rightarrow> nat option" where
  "scan_back contents 0 = None"
| "scan_back contents (Suc index) =
     (if contents ! index = CHR ''}'' then Some index else scan_back contents index)"

definition interstitial :: string where
  "interstitial = ''Please stand by, while we are checking your browser...''"

text \<open>
  A document is the pair of what \<open>page.content()\<close> returns at once and what it returns
  after the ten seconds' wait. \<open>session_text\<close> is the slice \<open>contents[start:end+1]\<close>,
  \<open>None\<close> when a delimiter is missing (the code raises JSONDecodeError itself).
\<close>

definition session_text :: "string \<times> string \<Rightarrow> string option" where
  "session_text doc =
     (let contents = (if contains interstitial (fst doc) then snd doc else fst doc) in
      case str_find CHR ''{'' contents of
        None \<Rightarrow> None
      | Some start \<Rightarrow>
          (case scan_back contents (length contents) of
             None \<Rightarrow> None
           | Some end \<Rightarrow> Some (take (end + 1 - start) (drop start contents))))"

text \<open>
  \<open>async_refresh_session\<close>: JSONDecodeError is caught and logged; the only assignment to
  the session is the one of the value \<open>json.loads\<close> returned.
\<close>

definition async_refresh_session ::
  "(string \<Rightarrow> json option) \<Rightarrow> string \<times> string \<Rightarrow> 'a client_scheme \<Rightarrow> 'a client_scheme" where
  "async_refresh_session loads doc st =
     (let st1 = st\<lparr>trace := trace st @ [Refreshed]\<rparr> in
      case session_text doc of
        None \<Rightarrow> st1
      | Some contents \<Rightarrow>
          (case loads contents of
             None \<Rightarrow> st1
           | Some parsed \<Rightarrow> st1\<lparr>session := parsed\<rparr>))"

section \<open>The request\<close>

definition request :: "string \<Rightarrow> string \<Rightarrow> string \<Rightarrow> 'a client_scheme \<Rightarrow> json" where
  "request new_message_id prompt model_name st =
     JObj [(''messages'',
              JArr [JObj [(''id'', JStr new_message_id),
                          (''role'', JStr ''user''),
                          (''content'',
                             JObj [(''content_type'', JStr ''text''),
                                   (''parts'', JArr [JStr prompt])])]]),
           (''model'', JStr model_name),
           (''conversation_id'', conversation_id st),
           (''parent_message_id'', parent_message_id st),
           (''action'', JStr ''next'')]"

definition RENDER_MODELS :: "(string \<times> string) list" where
  "RENDER_MODELS =
     [(''default'', ''text-davinci-002-render-sha''),
      (''legacy-paid'', ''text-davinci-002-render-paid''),
      (''legacy-free'', ''text-davinci-002-render'')]"

section \<open>The asynchronous streaming ask\<close>

text \<open>
  How a call ends: it returns (a generator is exhausted), it raises, it waits for the lock
  for ever, or it is still running where the recorded behaviour of the page ends.
\<close>

datatype outcome = Returned | Raised error | Blocked | Pending

text \<open>
  What the page and the library do during one activation of a streaming ask: the identifier
  \<open>uuid.uuid4()\<close> gives, whether \<open>page.evaluate(code)\<close> returns (or throws), and what the
  successive polling iterations see.
\<close>

record page =
  new_id :: string
  evaluate_ok :: bool
  polls :: "poll list"

text \<open>
  For \<open>async_ask_stream\<close> also the document served to the refresh made when the session is
  \<open>{}\<close>, and the one served to the refresh made before a retry.
\<close>

record attempt = page +
  doc_first :: "string \<times> string"
  doc_retry :: "string \<times> string"

definition unlock :: "async_chatgpt \<Rightarrow> async_chatgpt" where
  "unlock st = st\<lparr>locked := False\<rparr>"

text \<open>
  Leaving the \<open>async with\<close> block after the inner generator is exhausted or has raised
  releases the lock; a call that never comes back leaves it held.
\<close>

definition leave ::
  "yielded list \<times> outcome \<times> async_chatgpt \<Rightarrow> yielded list \<times> outcome \<times> async_chatgpt" where
  "leave r =
     (case r of
        (ys, Returned, st) \<Rightarrow> (ys, Returned, unlock st)
      | (ys, Raised e, st) \<Rightarrow> (ys, Raised e, unlock st)
      | (ys, out, st) \<Rightarrow> (ys, out, st))"

text \<open>
  \<open>async_ask_stream(prompt, remaining_retry)\<close>. The list holds what the page does during
  this activation and during the activations nested in it. \<open>asyncio.Lock\<close> is not
  re-entrant: \<open>acquire\<close> on a locked lock waits until somebody releases it.
\<close>

fun async_ask_stream ::
  "(string \<Rightarrow> json option) \<Rightarrow> string \<Rightarrow> int \<Rightarrow> attempt list \<Rightarrow> async_chatgpt
     \<Rightarrow> yielded list \<times> outcome \<times> async_chatgpt" where
  "async_ask_stream loads prompt remaining_retry [] st = ([], Pending, st)"
| "async_ask_stream loads prompt remaining_retry (a # as) st =
     (let st0 = st\<lparr>trace := trace st @ [Invoked remaining_retry]\<rparr> in
      if locked st0 then ([], Blocked, st0)
      else
        (let st1 = st0\<lparr>locked := True\<rparr> in
         if remaining_retry = 0 then ([], Raised NetworkError, unlock st1)
         else
           (let st2 = (if session st1 = JObj [] then async_refresh_session loads (doc_first a) st1
                       else st1) in
            case py_in ''accessToken'' (session st2) of
              None \<Rightarrow> ([], Raised TypeError, unlock st2)
            | Some False \<Rightarrow> ([], Raised NotLoggedInError, unlock st2)
            | Some True \<Rightarrow>
                (case getitem (session st2) ''accessToken'' of
                   Some (JStr token) \<Rightarrow>
                     (let st3 = st2\<lparr>trace := trace st2 @
                            [Evaluate token
                               (request (new_id a) prompt ''text-davinci-002-render-sha'' st2)]\<rparr>
                      in
                      if \<not> evaluate_ok a then
                        leave (async_ask_stream loads prompt 2 as
                                 (async_refresh_session loads (doc_retry a) st3))
                      else
                        (case poll_async loads (polls a) [] None st3 of
                           (ys, Break, st4) \<Rightarrow>
                             (ys, Returned, unlock (st4\<lparr>trace := trace st4 @ [CleanupDivs]\<rparr>))
                         | (ys, Error, st4) \<Rightarrow> (ys, Raised ChatGPTResponseError, unlock st4)
                         | (ys, Running, st4) \<Rightarrow> (ys, Pending, st4)
                         | (ys, Else, st4) \<Rightarrow>
                             (case leave (async_ask_stream loads prompt (remaining_retry - 1) as
                                            (async_refresh_session loads (doc_retry a) st4)) of
                                (zs, out, st5) \<Rightarrow> (ys @ zs, out, st5))))
                 | _ \<Rightarrow> ([], Raised TypeError, unlock st2)))))"

text \<open>
  \<open>async_ask(message, remaining_retry)\<close>. Each activation has the behaviour of the page
  during its streaming ask, and the document served to the refresh it makes on an empty
  response. The result is the joined response, or how the call ended otherwise.
\<close>

record asking =
  attempts :: "attempt list"
  doc_empty :: "string \<times> string"

fun async_ask ::
  "(string \<Rightarrow> json option) \<Rightarrow> string \<Rightarrow> int \<Rightarrow> asking list \<Rightarrow> async_chatgpt
     \<Rightarrow> (outcome + string) \<times> async_chatgpt" where
  "async_ask loads message remaining_retry [] st = (Inl Pending, st)"
| "async_ask loads message remaining_retry (k # ks) st =
     (if remaining_retry = 0 then (Inl (Raised ChatGPTResponseError), st)
      else
        (case async_ask_stream loads message 2 (attempts k) st of
           (response, Returned, st1) \<Rightarrow>
             if length response \<noteq> 0 then (Inr (concat (map chunk response)), st1)
             else async_ask loads message (remaining_retry - 1) ks
                    (async_refresh_session loads (doc_empty k) st1)
         | (response, out, st1) \<Rightarrow> (Inl out, st1)))"

section \<open>The synchronous streaming ask\<close>

text \<open>
  For \<open>ask_stream\<close>: the session \<open>Browser.refresh_session\<close> leaves behind (the class
  \<open>Browser\<close> is not part of the sources at hand), whether the two \<open>remove()\<close> calls of
  \<open>_cleanup_divs\<close> return, and whether the title request is answered with \<open>ok\<close>.
\<close>

record sync_attempt = page +
  refreshed :: json
  cleanup_ok :: bool
  title_ok :: bool

definition not_usable :: string where
  "not_usable =
     ''Your ChatGPT session is not usable.'' @ [CHR 0x0A] @
     ''* Run this program with the '' @ [CHR 0x60] @ ''install'' @ [CHR 0x60] @
     '' parameter and log in to ChatGPT.'' @ [CHR 0x0A] @
     ''* If you think you are already logged in, try running the '' @ [CHR 0x60] @
     ''session'' @ [CHR 0x60] @ '' command.''"

definition gen_title :: "bool \<Rightarrow> chatgpt \<Rightarrow> outcome \<times> chatgpt" where
  "gen_title ok st =
     (if \<not> truthy (conversation_id st)
         \<or> (truthy (conversation_id st) \<and> conversation_title_set st)
      then (Returned, st)
      else
        (case map_of RENDER_MODELS (model st) of
           None \<Rightarrow> (Raised KeyError, st)
         | Some model_name \<Rightarrow>
             (case getitem (session st) ''accessToken'' of
                None \<Rightarrow> (Raised KeyError, st)
              | Some token \<Rightarrow>
                  (let st1 = st\<lparr>trace := trace st @ [GenTitle]\<rparr> in
                   if ok then (Returned, st1\<lparr>conversation_title_set := True\<rparr>)
                   else (Returned, st1)))))"

definition ask_stream ::
  "(string \<Rightarrow> json option) \<Rightarrow> string \<Rightarrow> sync_attempt \<Rightarrow> chatgpt
     \<Rightarrow> yielded list \<times> outcome \<times> chatgpt" where
  "ask_stream loads prompt a st =
     (case py_in ''accessToken'' (session st) of
        None \<Rightarrow> ([], Raised TypeError, st)
      | Some present \<Rightarrow>
          (let st1 = (if \<not> present
                      then st\<lparr>session := refreshed a, trace := trace st @ [Refreshed]\<rparr>
                      else st) in
           case py_in ''accessToken'' (session st1) of
             None \<Rightarrow> ([], Raised TypeError, st1)
           | Some False \<Rightarrow> ([Notice not_usable], Returned, st1)
           | Some True \<Rightarrow>
               (case map_of RENDER_MODELS (model st1) of
                  None \<Rightarrow> ([], Raised KeyError, st1)
                | Some model_name \<Rightarrow>
                    (case getitem (session st1) ''accessToken'' of
                       Some (JStr token) \<Rightarrow>
                         (let st2 = st1\<lparr>trace := trace st1 @
                                [Evaluate token (request (new_id a) prompt model_name st1)]\<rparr>
                          in
                          if \<not> evaluate_ok a then ([], Raised PageError, st2)
                          else
                            (case poll_sync loads (polls a) [] st2 of
                               (ys, Running, st3) \<Rightarrow> (ys, Pending, st3)
                             | (ys, ex, st3) \<Rightarrow>
                                 (let st4 = st3\<lparr>trace := trace st3 @ [CleanupDivs]\<rparr> in
                                  if \<not> cleanup_ok a then (ys, Raised PageError, st4)
                                  else (case gen_title (title_ok a) st4 of
                                          (out, st5) \<Rightarrow> (ys, out, st5)))))
                     | _ \<Rightarrow> ([], Raised TypeError, st1)))))"

definition unusable_response :: string where
  "unusable_response =
     ''Unusable response produced, maybe login session expired. Try '' @ [CHR 0x27] @
     ''pkill firefox'' @ [CHR 0x27] @ '' and '' @ [CHR 0x27] @ ''chatgpt install'' @ [CHR 0x27]"

text \<open>\<open>ask\<close>: the chunks are collected with \<open>list\<close> and added up; an exception passes through.\<close>

definition ask ::
  "(string \<Rightarrow> json option) \<Rightarrow> string \<Rightarrow> sync_attempt \<Rightarrow> chatgpt
     \<Rightarrow> (outcome + string) \<times> chatgpt" where
  "ask loads message a st =
     (case ask_stream loads message a st of
        (response, Returned, st1) \<Rightarrow>
          (Inr (if length response > 0 then concat (map chunk response) else unusable_response),
           st1)
      | (response, out, st1) \<Rightarrow> (Inl out, st1))"

section \<open>Notions used to state the properties\<close>






text \<open>The conversation state: the pair that threads the turns into one conversation.\<close>

definition thread :: "'a client_scheme \<Rightarrow> json \<times> json" where
  "thread st = (parent_message_id st, conversation_id st)"










section \<open>Sample behaviour of the page\<close>

definition dq :: "string \<Rightarrow> string" where
  "dq s = CHR 0x22 # s @ [CHR 0x22]"

text \<open>The text of an event of the conversation endpoint, and the value it parses to.\<close>

definition event_text :: "string \<Rightarrow> string \<Rightarrow> string \<Rightarrow> string" where
  "event_text mid cid msg =
     ''{'' @ dq ''message'' @ '': {'' @ dq ''id'' @ '': '' @ dq mid @ '', '' @
     dq ''content'' @ '': {'' @ dq ''content_type'' @ '': '' @ dq ''text'' @ '', '' @
     dq ''parts'' @ '': ['' @ dq msg @ '']}}, '' @
     dq ''conversation_id'' @ '': '' @ dq cid @ ''}''"

definition event_value :: "string \<Rightarrow> string \<Rightarrow> string \<Rightarrow> json" where
  "event_value mid cid msg =
     JObj [(''message'',
              JObj [(''id'', JStr mid),
                    (''content'',
                       JObj [(''content_type'', JStr ''text''), (''parts'', JArr [JStr msg])])]),
           (''conversation_id'', JStr cid)]"

definition session_json :: string where
  "session_json = ''{'' @ dq ''accessToken'' @ '': '' @ dq ''tok'' @ ''}''"

definition session_page :: string where
  "session_page = ''<html><body><pre>'' @ session_json @ ''</pre></body></html>''"

definition denied_page :: string where
  "denied_page = ''<html><body>Access denied {</body></html>''"

text \<open>\<open>json.loads\<close> on the texts above; it raises on the other texts that occur below.\<close>

definition sample_loads :: "string \<Rightarrow> json option" where
  "sample_loads s =
     (if s = event_text ''m1'' ''c1'' ''Good '' then Some (event_value ''m1'' ''c1'' ''Good '')
      else if s = event_text ''m1'' ''c1'' ''Good night!''
        then Some (event_value ''m1'' ''c1'' ''Good night!'')
      else if s = event_text ''m1'' ''c1'' ''Ok'' then Some (event_value ''m1'' ''c1'' ''Ok'')
      else if s = session_json then Some (JObj [(''accessToken'', JStr ''tok'')])
      else None)"

definition seen :: "int \<Rightarrow> nat \<Rightarrow> string \<Rightarrow> poll" where
  "seen t eof event_raw = \<lparr>elapsed = t, eof_datas = eof, conversation_datas = [Some event_raw]\<rparr>"

definition logged_in :: async_chatgpt where
  "logged_in =
     \<lparr>session = JObj [(''accessToken'', JStr ''tok'')], parent_message_id = JStr ''p0'',
      conversation_id = JNull, timeout = 60, trace = [], locked = False\<rparr>"

definition logged_in_sync :: chatgpt where
  "logged_in_sync =
     \<lparr>session = JObj [(''accessToken'', JStr ''tok'')], parent_message_id = JStr ''p0'',
      conversation_id = JNull, timeout = 60, trace = [], model = ''default'',
      conversation_title_set = False\<rparr>"

definition page_of :: "bool \<Rightarrow> poll list \<Rightarrow> attempt" where
  "page_of ok ps =
     \<lparr>new_id = ''u1'', evaluate_ok = ok, polls = ps,
      doc_first = (session_page, session_page), doc_retry = (session_page, session_page)\<rparr>"

definition sync_page_of :: "poll list \<Rightarrow> sync_attempt" where
  "sync_page_of ps =
     \<lparr>new_id = ''u1'', evaluate_ok = True, polls = ps,
      refreshed = JObj [], cleanup_ok = True, title_ok = True\<rparr>"

section \<open>Properties of the polling loops\<close>





text \<open>
  C10. An iteration that finds the stream marker with an empty decoded content reads no
  event: no exception, no message, the client unchanged. In both loops it yields nothing
  and either leaves the loop (end-of-stream marker present; in the synchronous loop also
  when the time is up) or goes on to the next iteration with the client as it was.
\<close>

theorem empty_payload_skipped:
  assumes "conversation_datas p = Some [] # rest"
  shows "read_event loads (hd (conversation_datas p)) st = (st, Some None)
     \<and> (elapsed p \<le> timeout st \<or> full \<noteq> None \<longrightarrow>
          poll_async loads (p # ps) l full st =
            (if eof_datas p > 0 then ([], Break, st) else poll_async loads ps l None st))
     \<and> poll_sync loads (p # ps) l st =
          (if eof_datas p > 0 \<or> elapsed p > timeout st then ([], Break, st)
           else poll_sync loads ps l st)"
  using assms by (simp add: read_event_def)

theorem empty_payload_skipped_witness:
  "conversation_datas (seen 1 1 []) = Some [] # []
   \<and> elapsed (seen 1 1 []) \<le> timeout logged_in
   \<and> read_event sample_loads (hd (conversation_datas (seen 1 1 []))) logged_in
       = (logged_in, Some None)
   \<and> poll_async sample_loads [seen 1 1 []] ''Good '' (Some ''Good '') logged_in
       = ([], Break, logged_in)
   \<and> poll_sync sample_loads [seen 1 0 [], seen 2 1 []] ''Good '' logged_in
       = ([], Break, logged_in)"
  using empty_payload_skipped [of "seen 1 1 []" "[]" sample_loads logged_in "Some ''Good ''"
      "[]" "''Good ''"]
    empty_payload_skipped [of "seen 1 0 []" "[]" sample_loads logged_in None
      "[seen 2 1 []]" "''Good ''"]
  by (simp add: seen_def logged_in_def read_event_def)

lemma session_text_samples:
  "session_text (session_page, session_page) = Some session_json"
  "session_text (denied_page, denied_page) = None"
  "session_text (''<style>a{b}</style>'', []) = Some ''{b}''"
  by (simp_all add: session_text_def session_page_def denied_page_def session_json_def dq_def
      interstitial_def)

text \<open>
  C7. The refresh assigns the session once, with the value \<open>json.loads\<close> returned for the
  extracted text: when a delimiter is missing or the text does not parse, the stored
  session is the one stored before; when it parses, the stored session is the parsed value.
  The conversation state is not touched.
\<close>

theorem refresh_session_atomic:
  "(session_text doc = None \<or> (session_text doc = Some t \<and> loads t = None) \<longrightarrow>
      session (async_refresh_session loads doc st) = session st)
   \<and> (session_text doc = Some t \<and> loads t = Some v \<longrightarrow>
      session (async_refresh_session loads doc st) = v)
   \<and> parent_message_id (async_refresh_session loads doc st) = parent_message_id st
   \<and> conversation_id (async_refresh_session loads doc st) = conversation_id st"
  by (auto simp: async_refresh_session_def Let_def split: option.splits)

theorem refresh_session_atomic_witness:
  "session_text (session_page, session_page) = Some session_json
   \<and> sample_loads session_json = Some (JObj [(''accessToken'', JStr ''tok'')])
   \<and> session (async_refresh_session sample_loads (session_page, session_page)
        (logged_in\<lparr>session := JObj []\<rparr>)) = JObj [(''accessToken'', JStr ''tok'')]
   \<and> session_text (''<style>a{b}</style>'', []) = Some ''{b}''
   \<and> sample_loads ''{b}'' = None
   \<and> session (async_refresh_session sample_loads (''<style>a{b}</style>'', []) logged_in)
       = session logged_in
   \<and> session_text (denied_page, denied_page) = None
   \<and> session (async_refresh_session sample_loads (denied_page, denied_page) logged_in)
       = session logged_in"
  using refresh_session_atomic [where doc = "(session_page, session_page)" and t = session_json
      and loads = sample_loads and v = "JObj [(''accessToken'', JStr ''tok'')]"
      and st = "logged_in\<lparr>session := JObj []\<rparr>"]
    refresh_session_atomic [where doc = "(''<style>a{b}</style>'', [])" and t = "''{b}''"
      and loads = sample_loads and v = JNull and st = logged_in]
    refresh_session_atomic [where doc = "(denied_page, denied_page)" and t = "[]"
      and loads = sample_loads and v = JNull and st = logged_in]
    session_text_samples
  by (simp add: sample_loads_def session_json_def dq_def event_text_def)




lemma refresh_sample:
  "async_refresh_session sample_loads (session_page, session_page) st
     = st\<lparr>trace := trace st @ [Refreshed], session := JObj [(''accessToken'', JStr ''tok'')]\<rparr>"
  by (simp add: async_refresh_session_def session_text_def session_page_def session_json_def
      dq_def interstitial_def sample_loads_def event_text_def)

text \<open>
  C2, on the code. Budget 2, a usable session, the stream marker stays empty, no
  end-of-stream marker, and the clock passes the 60 seconds: the loop ends through its
  \<open>else\<close> branch, the session is refreshed, and the retry is invoked with budget 1 while the
  first activation still holds the lock. The retry waits for the lock: nothing is yielded,
  no error is raised, the call does not come back.
\<close>

theorem timeout_retry_blocks:
  "async_ask_stream sample_loads ''Good night!'' 2
       [page_of True [seen 1 0 [], seen 30 0 [], seen 61 0 []], page_of True []] logged_in
     = ([], Blocked,
        logged_in\<lparr>trace :=
          [Invoked 2,
           Evaluate ''tok'' (request ''u1'' ''Good night!'' ''text-davinci-002-render-sha''
             logged_in),
           Refreshed, Invoked 1],
          locked := True\<rparr>)"
  by (simp add: refresh_sample page_of_def seen_def logged_in_def py_in_def getitem_def
      read_event_def request_def leave_def)

text \<open>
  C3, as the code has it. With a session that lacks \<open>accessToken\<close> (after the refresh the
  code makes when it applies), \<open>async_ask_stream\<close> with a budget other than zero raises
  NotLoggedInError, and \<open>ask_stream\<close> yields the not-usable text as its only chunk and
  returns. Neither hands anything to \<open>page.evaluate\<close>: the trace gets the invocation and
  the refresh only.
\<close>

theorem not_logged_in_no_injection:
  "(remaining_retry \<noteq> 0 \<and> \<not> locked st
      \<and> py_in ''accessToken''
           (session (if session st = JObj [] then async_refresh_session loads (doc_first a) st
                     else st)) = Some False
    \<longrightarrow> fst (async_ask_stream loads prompt remaining_retry (a # as) st) = []
      \<and> fst (snd (async_ask_stream loads prompt remaining_retry (a # as) st))
          = Raised NotLoggedInError
      \<and> trace (snd (snd (async_ask_stream loads prompt remaining_retry (a # as) st)))
          = trace st @ Invoked remaining_retry # (if session st = JObj [] then [Refreshed] else []))
   \<and> (py_in ''accessToken'' (session ct) = Some False
      \<and> py_in ''accessToken'' (refreshed b) = Some False
    \<longrightarrow> ask_stream loads prompt b ct
          = ([Notice not_usable], Returned,
             ct\<lparr>session := refreshed b, trace := trace ct @ [Refreshed]\<rparr>))"
  by (auto simp: Let_def ask_stream_def async_refresh_session_def unlock_def
      split: option.splits)

theorem not_logged_in_no_injection_witness:
  "py_in ''accessToken''
      (session (async_refresh_session sample_loads (denied_page, denied_page)
         (logged_in\<lparr>session := JObj []\<rparr>))) = Some False
   \<and> async_ask_stream sample_loads ''hi'' 2
        [\<lparr>new_id = ''u1'', evaluate_ok = True, polls = [],
          doc_first = (denied_page, denied_page), doc_retry = (denied_page, denied_page)\<rparr>]
        (logged_in\<lparr>session := JObj []\<rparr>)
      = ([], Raised NotLoggedInError,
         logged_in\<lparr>session := JObj [], trace := [Invoked 2, Refreshed]\<rparr>)
   \<and> ask_stream sample_loads ''hi'' (sync_page_of []) (logged_in_sync\<lparr>session := JObj []\<rparr>)
      = ([Notice not_usable], Returned,
         logged_in_sync\<lparr>session := JObj [], trace := [Refreshed]\<rparr>)"
  using not_logged_in_no_injection [where remaining_retry = 2
      and st = "logged_in\<lparr>session := JObj []\<rparr>" and loads = sample_loads
      and a = "\<lparr>new_id = ''u1'', evaluate_ok = True, polls = [],
          doc_first = (denied_page, denied_page), doc_retry = (denied_page, denied_page)\<rparr>"
      and as = "[]" and prompt = "''hi''" and ct = "logged_in_sync\<lparr>session := JObj []\<rparr>"
      and b = "sync_page_of []"]
  by (simp add: logged_in_def logged_in_sync_def sync_page_of_def py_in_def
      async_refresh_session_def session_text_def denied_page_def interstitial_def unlock_def)

text \<open>
  C3 as stated fails for the synchronous class: with no credential before and after the
  refresh, \<open>ask_stream\<close> raises nothing; it yields the text, and \<open>ask\<close> returns it as the
  response.
\<close>

theorem sync_not_logged_in_counterexample:
  "ask_stream sample_loads ''hi'' (sync_page_of []) (logged_in_sync\<lparr>session := JObj []\<rparr>)
      = ([Notice not_usable], Returned,
         logged_in_sync\<lparr>session := JObj [], trace := [Refreshed]\<rparr>)
   \<and> fst (ask sample_loads ''hi'' (sync_page_of []) (logged_in_sync\<lparr>session := JObj []\<rparr>))
      = Inr not_usable
   \<and> fst (snd (ask_stream sample_loads ''hi'' (sync_page_of [])
        (logged_in_sync\<lparr>session := JObj []\<rparr>))) \<noteq> Raised NotLoggedInError"
  by (simp add: ask_def ask_stream_def logged_in_sync_def sync_page_of_def py_in_def)

section \<open>What the polling loops leave untouched\<close>

lemma read_event_frame:
  "read_event loads d st = (st', r) \<Longrightarrow>
     trace st' = trace st \<and> session st' = session st \<and> timeout st' = timeout st
     \<and> client.more st' = client.more st"
  by (auto simp: read_event_def Let_def split: option.splits if_splits)

lemma poll_async_frame:
  "poll_async loads ps l full st = (ys, ex, st') \<Longrightarrow>
     trace st' = trace st \<and> session st' = session st \<and> timeout st' = timeout st
     \<and> client.more st' = client.more st"
proof (induction ps arbitrary: l full st ys ex st')
  case Nil
  then show ?case by simp
next
  case (Cons p ps)
  show ?case
  proof (cases "elapsed p \<le> timeout st \<or> full \<noteq> None")
    case False
    with Cons.prems show ?thesis by simp
  next
    case go: True
    show ?thesis
    proof (cases "conversation_datas p")
      case Nil
      with go Cons.prems have "poll_async loads ps l full st = (ys, ex, st')" by simp
      then show ?thesis by (rule Cons.IH)
    next
      case (Cons d ds)
      obtain st1 r where re: "read_event loads d st = (st1, r)" by (cases "read_event loads d st")
      note fr = read_event_frame [OF re]
      show ?thesis
      proof (cases r)
        case None
        with go Cons re Cons.prems fr show ?thesis by auto
      next
        case (Some m)
        show ?thesis
        proof (cases "eof_datas p > 0")
          case True
          with go Cons re Some Cons.prems fr show ?thesis
            by (cases m) (auto simp: Let_def)
        next
          case False
          show ?thesis
          proof (cases m)
            case None
            with False go Cons re Some Cons.prems
            have "poll_async loads ps l None st1 = (ys, ex, st')" by simp
            from Cons.IH [OF this] fr show ?thesis by simp
          next
            case (Some msg)
            with False go Cons re \<open>r = Some m\<close> Cons.prems
            obtain zs where "poll_async loads ps msg (Some msg) st1 = (zs, ex, st')"
              by (auto simp: Let_def split: prod.splits)
            from Cons.IH [OF this] fr show ?thesis by simp
          qed
        qed
      qed
    qed
  qed
qed

lemma poll_sync_frame:
  "poll_sync loads ps l st = (ys, ex, st') \<Longrightarrow>
     trace st' = trace st \<and> session st' = session st \<and> timeout st' = timeout st
     \<and> client.more st' = client.more st"
proof (induction ps arbitrary: l st ys ex st')
  case Nil
  then show ?case by simp
next
  case (Cons p ps)
  show ?case
  proof (cases "conversation_datas p")
    case Nil
    with Cons.prems have "poll_sync loads ps l st = (ys, ex, st')" by simp
    then show ?thesis by (rule Cons.IH)
  next
    case (Cons d ds)
    obtain st1 r where re: "read_event loads d st = (st1, r)" by (cases "read_event loads d st")
    note fr = read_event_frame [OF re]
    show ?thesis
    proof (cases r)
      case None
      with Cons re Cons.prems fr show ?thesis by auto
    next
      case (Some m)
      show ?thesis
      proof (cases m)
        case None
        show ?thesis
        proof (cases "eof_datas p > 0 \<or> elapsed p > timeout st1")
          case True
          with None Cons re Some Cons.prems fr show ?thesis by auto
        next
          case False
          with None Cons re Some Cons.prems
          have "poll_sync loads ps l st1 = (ys, ex, st')" by simp
          from Cons.IH [OF this] fr show ?thesis by simp
        qed
      next
        case inner: (Some msg)
        show ?thesis
        proof (cases "eof_datas p > 0")
          case True
          with inner Cons re Some Cons.prems fr show ?thesis by (auto simp: Let_def)
        next
          case False
          with inner Cons re Some Cons.prems
          obtain zs where "poll_sync loads ps msg st1 = (zs, ex, st')"
            by (auto simp: Let_def split: prod.splits)
          from Cons.IH [OF this] fr show ?thesis by simp
        qed
      qed
    qed
  qed
qed

section \<open>The branches of the asynchronous streaming ask\<close>

lemma stream_locked:
  "locked st \<Longrightarrow>
     async_ask_stream loads prompt n (a # as) st
       = ([], Blocked, st\<lparr>trace := trace st @ [Invoked n]\<rparr>)"
  by simp

lemma stream_zero:
  "\<not> locked st \<Longrightarrow>
     async_ask_stream loads prompt 0 (a # as) st
       = ([], Raised NetworkError, st\<lparr>trace := trace st @ [Invoked 0]\<rparr>)"
  by (simp add: unlock_def)

lemma stream_no_token:
  assumes "\<not> locked st" and "n \<noteq> 0"
    and "st2 = (let st1 = st\<lparr>trace := trace st @ [Invoked n], locked := True\<rparr> in
                if session st = JObj [] then async_refresh_session loads (doc_first a) st1
                else st1)"
  shows "py_in ''accessToken'' (session st2) = None \<Longrightarrow>
           async_ask_stream loads prompt n (a # as) st = ([], Raised TypeError, unlock st2)"
    and "py_in ''accessToken'' (session st2) = Some False \<Longrightarrow>
           async_ask_stream loads prompt n (a # as) st = ([], Raised NotLoggedInError, unlock st2)"
    and "py_in ''accessToken'' (session st2) = Some True \<Longrightarrow>
         \<forall>token. getitem (session st2) ''accessToken'' \<noteq> Some (JStr token) \<Longrightarrow>
           async_ask_stream loads prompt n (a # as) st = ([], Raised TypeError, unlock st2)"
  using assms
  by (cases "session st = JObj []"; simp add: Let_def split: option.splits json.splits)+

lemma stream_token:
  assumes "\<not> locked st" and "n \<noteq> 0"
    and "st2 = (let st1 = st\<lparr>trace := trace st @ [Invoked n], locked := True\<rparr> in
                if session st = JObj [] then async_refresh_session loads (doc_first a) st1
                else st1)"
    and "py_in ''accessToken'' (session st2) = Some True"
    and "getitem (session st2) ''accessToken'' = Some (JStr token)"
    and "st3 = st2\<lparr>trace := trace st2 @
           [Evaluate token (request (new_id a) prompt ''text-davinci-002-render-sha'' st2)]\<rparr>"
  shows "\<not> evaluate_ok a \<Longrightarrow>
           async_ask_stream loads prompt n (a # as) st =
             leave (async_ask_stream loads prompt 2 as
                      (async_refresh_session loads (doc_retry a) st3))"
    and "evaluate_ok a \<Longrightarrow> poll_async loads (polls a) [] None st3 = (ys, Break, st4) \<Longrightarrow>
           async_ask_stream loads prompt n (a # as) st =
             (ys, Returned, unlock (st4\<lparr>trace := trace st4 @ [CleanupDivs]\<rparr>))"
    and "evaluate_ok a \<Longrightarrow> poll_async loads (polls a) [] None st3 = (ys, Error, st4) \<Longrightarrow>
           async_ask_stream loads prompt n (a # as) st =
             (ys, Raised ChatGPTResponseError, unlock st4)"
    and "evaluate_ok a \<Longrightarrow> poll_async loads (polls a) [] None st3 = (ys, Running, st4) \<Longrightarrow>
           async_ask_stream loads prompt n (a # as) st = (ys, Pending, st4)"
    and "evaluate_ok a \<Longrightarrow> poll_async loads (polls a) [] None st3 = (ys, Else, st4) \<Longrightarrow>
           async_ask_stream loads prompt n (a # as) st =
             (case leave (async_ask_stream loads prompt (n - 1) as
                            (async_refresh_session loads (doc_retry a) st4)) of
                (zs, out, st5) \<Rightarrow> (ys @ zs, out, st5))"
  using assms
  by (cases "session st = JObj []"; simp add: Let_def)+

section \<open>The conversation state and the trace\<close>




lemma thread_simps [simp]:
  "thread (st\<lparr>trace := t\<rparr>) = thread st"
  "thread (st\<lparr>session := s\<rparr>) = thread st"
  "thread (unlock a) = thread a"
  "thread (a\<lparr>locked := b\<rparr>) = thread a"
  "thread (async_refresh_session loads doc st) = thread st"
  by (auto simp: thread_def unlock_def async_refresh_session_def Let_def split: option.splits)

lemma thread_leave [simp]: "thread (snd (snd (leave r))) = thread (snd (snd r))"
  by (cases r) (auto simp: leave_def split: outcome.splits)


lemma trace_leave [simp]: "trace (snd (snd (leave r))) = trace (snd (snd r))"
  by (cases r) (auto simp: leave_def unlock_def split: outcome.splits)

lemma trace_refresh [simp]:
  "trace (async_refresh_session loads doc st) = trace st @ [Refreshed]"
  by (simp add: async_refresh_session_def Let_def split: option.splits)

lemma trace_unlock [simp]: "trace (unlock st) = trace st"
  by (simp add: unlock_def)

lemma async_ask_stream_trace:
  "prefix (trace st) (trace (snd (snd (async_ask_stream loads prompt n as st))))"
proof (induction as arbitrary: n st)
  case Nil
  then show ?case by simp
next
  case (Cons a as)
  note ih = Cons.IH
  define st2 where "st2 = (let st1 = st\<lparr>trace := trace st @ [Invoked n], locked := True\<rparr> in
                if session st = JObj [] then async_refresh_session loads (doc_first a) st1
                else st1)"
  have t2: "prefix (trace st) (trace st2)" by (simp add: st2_def Let_def)
  consider (locked) "locked st" | (zero) "\<not> locked st" "n = 0" | (go) "\<not> locked st" "n \<noteq> 0"
    by blast
  then show ?case
  proof cases
    case locked
    then show ?thesis by (simp add: stream_locked)
  next
    case zero
    then show ?thesis by (simp add: stream_zero)
  next
    case go
    note no = stream_no_token [OF go st2_def]
    show ?thesis
    proof (cases "py_in ''accessToken'' (session st2)")
      case None
      from no(1) [OF this] t2 show ?thesis by simp
    next
      case (Some present)
      show ?thesis
      proof (cases present)
        case False
        with Some no(2) t2 show ?thesis by simp
      next
        case True
        with Some have present: "py_in ''accessToken'' (session st2) = Some True" by simp
        show ?thesis
        proof (cases "\<exists>token. getitem (session st2) ''accessToken'' = Some (JStr token)")
          case False
          then have "\<forall>token. getitem (session st2) ''accessToken'' \<noteq> Some (JStr token)" by blast
          from no(3) [OF present this] t2 show ?thesis by simp
        next
          case True
          then obtain token where tok: "getitem (session st2) ''accessToken'' = Some (JStr token)"
            by blast
          define st3 where "st3 = st2\<lparr>trace := trace st2 @
            [Evaluate token (request (new_id a) prompt ''text-davinci-002-render-sha'' st2)]\<rparr>"
          have t3: "prefix (trace st) (trace st3)" using t2 by (auto simp: st3_def prefix_def)
          note tk = stream_token [OF go st2_def present tok st3_def]
          show ?thesis
          proof (cases "evaluate_ok a")
            case False
            have "prefix (trace st3) (trace (async_refresh_session loads (doc_retry a) st3))"
              by simp
            also note ih [where n = 2 and st = "async_refresh_session loads (doc_retry a) st3"]
            finally show ?thesis using tk(1) [OF False] t3 by (simp add: prefix_order.order_trans)
          next
            case True
            obtain ys ex st4 where p: "poll_async loads (polls a) [] None st3 = (ys, ex, st4)"
              by (cases "poll_async loads (polls a) [] None st3")
            from poll_async_frame [OF p] have "trace st4 = trace st3" by simp
            with t3 have t4: "prefix (trace st) (trace st4)" by simp
            show ?thesis
            proof (cases ex)
              case Break
              with tk(2) [OF True] p t4 show ?thesis by (auto simp: prefix_def)
            next
              case Else
              with p have "poll_async loads (polls a) [] None st3 = (ys, Else, st4)" by simp
              from tk(5) [OF True this] have eq:
                "snd (snd (async_ask_stream loads prompt n (a # as) st))
                   = snd (snd (leave (async_ask_stream loads prompt (n - 1) as
                            (async_refresh_session loads (doc_retry a) st4))))"
                by (simp add: split_beta)
              have "prefix (trace st4) (trace (async_refresh_session loads (doc_retry a) st4))"
                by simp
              also note ih [where n = "n - 1" and st = "async_refresh_session loads (doc_retry a) st4"]
              finally show ?thesis using eq t4 by (simp add: prefix_order.order_trans)
            next
              case Error
              with tk(3) [OF True] p t4 show ?thesis by simp
            next
              case Running
              with tk(4) [OF True] p t4 show ?thesis by simp
            qed
          qed
        qed
      qed
    qed
  qed
qed

section \<open>Retries\<close>




text \<open>
  C6, as the code has it. The retry after a timeout is invoked with the budget less one,
  the retry after a failed injection with the default budget 2; \<open>async_ask_stream\<close>
  entered with budget 0 and the lock free raises NetworkError. \<open>async_ask\<close> retries an
  empty response with its budget less one, and raises ChatGPTResponseError at budget 0.
\<close>

theorem retry_budget_steps:
  assumes "\<not> locked st" and "remaining_retry \<noteq> 0"
    and "entered = (let s = st\<lparr>trace := trace st @ [Invoked remaining_retry], locked := True\<rparr> in
                if session st = JObj [] then async_refresh_session loads (doc_first a) s
                else s)"
    and "py_in ''accessToken'' (session entered) = Some True"
    and "getitem (session entered) ''accessToken'' = Some (JStr token)"
    and "injected = entered\<lparr>trace := trace entered @
           [Evaluate token (request (new_id a) prompt ''text-davinci-002-render-sha'' entered)]\<rparr>"
  shows "(evaluate_ok a \<and> poll_async loads (polls a) [] None injected = (ys, Else, polled) \<longrightarrow>
            async_ask_stream loads prompt remaining_retry (a # as) st =
              (case leave (async_ask_stream loads prompt (remaining_retry - 1) as
                             (async_refresh_session loads (doc_retry a) polled)) of
                 (zs, out, st') \<Rightarrow> (ys @ zs, out, st')))
     \<and> (\<not> evaluate_ok a \<longrightarrow>
            async_ask_stream loads prompt remaining_retry (a # as) st =
              leave (async_ask_stream loads prompt 2 as
                       (async_refresh_session loads (doc_retry a) injected)))
     \<and> async_ask_stream loads prompt 0 (a # as) st
          = ([], Raised NetworkError, st\<lparr>trace := trace st @ [Invoked 0]\<rparr>)
     \<and> (budget \<noteq> 0 \<and> async_ask_stream loads prompt 2 (attempts k) ct = ([], Returned, streamed)
          \<longrightarrow> async_ask loads prompt budget (k # ks) ct
              = async_ask loads prompt (budget - 1) ks
                  (async_refresh_session loads (doc_empty k) streamed))
     \<and> async_ask loads prompt 0 (k # ks) ct = (Inl (Raised ChatGPTResponseError), ct)"
  using stream_token(1,5) [OF assms] stream_zero [OF assms(1)]
  by simp

lemma empty_response_run:
  "async_ask_stream sample_loads ''Good night!'' 2 [page_of True [seen 1 1 []]] logged_in
     = ([], Returned,
        logged_in\<lparr>trace :=
             [Invoked 2,
              Evaluate ''tok'' (request ''u1'' ''Good night!'' ''text-davinci-002-render-sha''
                logged_in),
              CleanupDivs]\<rparr>)"
  by (simp add: logged_in_def page_of_def seen_def py_in_def getitem_def read_event_def
      request_def unlock_def)

theorem retry_budget_steps_witness:
  "\<not> locked logged_in \<and> (2::int) \<noteq> 0
   \<and> py_in ''accessToken'' (session logged_in) = Some True
   \<and> getitem (session logged_in) ''accessToken'' = Some (JStr ''tok'')
   \<and> poll_async sample_loads [seen 61 0 []] [] None
        (logged_in\<lparr>trace := [Invoked 2, Evaluate ''tok'' (request ''u1'' ''Good night!''
            ''text-davinci-002-render-sha'' logged_in)], locked := True\<rparr>)
       = ([], Else,
          logged_in\<lparr>trace := [Invoked 2, Evaluate ''tok'' (request ''u1'' ''Good night!''
            ''text-davinci-002-render-sha'' logged_in)], locked := True\<rparr>)
   \<and> async_ask_stream sample_loads ''Good night!'' 2
        [page_of True [seen 61 0 []], page_of True []] logged_in
       = (case leave (async_ask_stream sample_loads ''Good night!'' (2 - 1) [page_of True []]
            (async_refresh_session sample_loads (session_page, session_page)
               (logged_in\<lparr>trace := [Invoked 2, Evaluate ''tok'' (request ''u1'' ''Good night!''
                  ''text-davinci-002-render-sha'' logged_in)], locked := True\<rparr>))) of
            (zs, out, st') \<Rightarrow> ([] @ zs, out, st'))
   \<and> async_ask_stream sample_loads ''Good night!'' 0 [page_of True []] logged_in
       = ([], Raised NetworkError, logged_in\<lparr>trace := [Invoked 0]\<rparr>)
   \<and> async_ask_stream sample_loads ''Good night!'' 2 [page_of True [seen 1 1 []]] logged_in
       = ([], Returned,
          logged_in\<lparr>trace := [Invoked 2, Evaluate ''tok'' (request ''u1'' ''Good night!''
            ''text-davinci-002-render-sha'' logged_in), CleanupDivs]\<rparr>)
   \<and> async_ask sample_loads ''Good night!'' 2
        [\<lparr>attempts = [page_of True [seen 1 1 []]], doc_empty = (session_page, session_page)\<rparr>]
        logged_in
       = async_ask sample_loads ''Good night!'' (2 - 1) []
           (async_refresh_session sample_loads (session_page, session_page)
              (logged_in\<lparr>trace := [Invoked 2, Evaluate ''tok'' (request ''u1'' ''Good night!''
                 ''text-davinci-002-render-sha'' logged_in), CleanupDivs]\<rparr>))
   \<and> async_ask sample_loads ''Good night!'' 0
        [\<lparr>attempts = [], doc_empty = (session_page, session_page)\<rparr>] logged_in
       = (Inl (Raised ChatGPTResponseError), logged_in)"
  using retry_budget_steps [where st = logged_in and remaining_retry = 2
      and loads = sample_loads and a = "page_of True [seen 61 0 []]"
      and token = "''tok''" and prompt = "''Good night!''" and as = "[page_of True []]"
      and entered = "logged_in\<lparr>trace := [Invoked 2], locked := True\<rparr>"
      and injected = "logged_in\<lparr>trace := [Invoked 2, Evaluate ''tok'' (request ''u1''
          ''Good night!'' ''text-davinci-002-render-sha'' logged_in)], locked := True\<rparr>"
      and ys = "[]"
      and polled = "logged_in\<lparr>trace := [Invoked 2, Evaluate ''tok'' (request ''u1''
          ''Good night!'' ''text-davinci-002-render-sha'' logged_in)], locked := True\<rparr>"
      and budget = 2 and ct = logged_in
      and k = "\<lparr>attempts = [page_of True [seen 1 1 []]],
                doc_empty = (session_page, session_page)\<rparr>"
      and ks = "[]"
      and streamed = "logged_in\<lparr>trace := [Invoked 2, Evaluate ''tok'' (request ''u1''
          ''Good night!'' ''text-davinci-002-render-sha'' logged_in), CleanupDivs]\<rparr>"]
    empty_response_run
  by (simp add: logged_in_def page_of_def seen_def py_in_def getitem_def request_def
      read_event_def unlock_def)

text \<open>
  C6 as stated fails: an attempt with budget 2 whose injection throws invokes the retry
  with budget 2 again; the budget does not decrease along this chain.
\<close>

theorem default_budget_counterexample:
  "trace (snd (snd (async_ask_stream sample_loads ''Good night!'' 2
       [page_of False [], page_of True []] logged_in)))
     = [Invoked 2,
        Evaluate ''tok'' (request ''u1'' ''Good night!'' ''text-davinci-002-render-sha''
          logged_in),
        Refreshed, Invoked 2]"
  by (simp add: refresh_sample page_of_def logged_in_def py_in_def getitem_def
      request_def leave_def)

section \<open>The branches of the synchronous streaming ask\<close>



lemma ask_stream_token:
  assumes "py_in ''accessToken'' (session ct) = Some present"
    and "entered = (if \<not> present
                    then ct\<lparr>session := refreshed b, trace := trace ct @ [Refreshed]\<rparr>
                    else ct)"
    and "py_in ''accessToken'' (session entered) = Some True"
    and "map_of RENDER_MODELS (model entered) = Some model_name"
    and "getitem (session entered) ''accessToken'' = Some (JStr token)"
    and "injected = entered\<lparr>trace := trace entered @
           [Evaluate token (request (new_id b) prompt model_name entered)]\<rparr>"
  shows "\<not> evaluate_ok b \<Longrightarrow> ask_stream loads prompt b ct = ([], Raised PageError, injected)"
    and "evaluate_ok b \<Longrightarrow> poll_sync loads (polls b) [] injected = (ys, Running, polled) \<Longrightarrow>
           ask_stream loads prompt b ct = (ys, Pending, polled)"
    and "evaluate_ok b \<Longrightarrow> poll_sync loads (polls b) [] injected = (ys, ex, polled) \<Longrightarrow>
         ex \<noteq> Running \<Longrightarrow> \<not> cleanup_ok b \<Longrightarrow>
           ask_stream loads prompt b ct
             = (ys, Raised PageError, polled\<lparr>trace := trace polled @ [CleanupDivs]\<rparr>)"
    and "evaluate_ok b \<Longrightarrow> poll_sync loads (polls b) [] injected = (ys, ex, polled) \<Longrightarrow>
         ex \<noteq> Running \<Longrightarrow> cleanup_ok b \<Longrightarrow>
           ask_stream loads prompt b ct
             = (ys, gen_title (title_ok b) (polled\<lparr>trace := trace polled @ [CleanupDivs]\<rparr>))"
  using assms
  by (cases present; cases ex; simp add: ask_stream_def Let_def split_beta)+



section \<open>What the polling loops do with what the polls show\<close>











lemma timeout_refresh [simp]:
  "timeout (async_refresh_session loads doc st) = timeout st"
  by (simp add: async_refresh_session_def Let_def split: option.splits)














section \<open>The deltas and the messages shown\<close>




section \<open>The conversation state after a turn\<close>




section \<open>The request\<close>

lemma stream_trace_injected:
  assumes "\<not> locked st" and "n \<noteq> 0"
    and "st2 = (let st1 = st\<lparr>trace := trace st @ [Invoked n], locked := True\<rparr> in
                if session st = JObj [] then async_refresh_session loads (doc_first a) st1
                else st1)"
    and "py_in ''accessToken'' (session st2) = Some True"
    and "getitem (session st2) ''accessToken'' = Some (JStr token)"
    and "st3 = st2\<lparr>trace := trace st2 @
           [Evaluate token (request (new_id a) prompt ''text-davinci-002-render-sha'' st2)]\<rparr>"
  shows "prefix (trace st3) (trace (snd (snd (async_ask_stream loads prompt n (a # as) st))))"
proof (cases "evaluate_ok a")
  case False
  have "prefix (trace st3) (trace (async_refresh_session loads (doc_retry a) st3))" by simp
  also note async_ask_stream_trace [where n = 2 and loads = loads and prompt = prompt
      and as = as and st = "async_refresh_session loads (doc_retry a) st3"]
  finally show ?thesis using stream_token(1) [OF assms False] by simp
next
  case True
  obtain ys ex st4 where p: "poll_async loads (polls a) [] None st3 = (ys, ex, st4)"
    by (cases "poll_async loads (polls a) [] None st3")
  from poll_async_frame [OF p] have t4: "trace st4 = trace st3" by simp
  note tk = stream_token [OF assms]
  show ?thesis
  proof (cases ex)
    case Break
    with tk(2) [OF True] p t4 show ?thesis by simp
  next
    case Else
    with p have "poll_async loads (polls a) [] None st3 = (ys, Else, st4)" by simp
    from tk(5) [OF True this] have eq:
      "snd (snd (async_ask_stream loads prompt n (a # as) st))
         = snd (snd (leave (async_ask_stream loads prompt (n - 1) as
                  (async_refresh_session loads (doc_retry a) st4))))"
      by (simp add: split_beta)
    have "prefix (trace st3) (trace (async_refresh_session loads (doc_retry a) st4))"
      using t4 by simp
    also note async_ask_stream_trace [where n = "n - 1" and loads = loads and prompt = prompt
      and as = as and st = "async_refresh_session loads (doc_retry a) st4"]
    finally show ?thesis using eq by simp
  next
    case Error
    with tk(3) [OF True] p t4 show ?thesis by simp
  next
    case Running
    with tk(4) [OF True] p t4 show ?thesis by simp
  qed
qed

lemma trace_gen_title: "prefix (trace st) (trace (snd (gen_title ok st)))"
  by (simp add: gen_title_def Let_def split: option.splits)

lemma ask_stream_trace_injected:
  assumes "py_in ''accessToken'' (session ct) = Some present"
    and "entered = (if \<not> present
                    then ct\<lparr>session := refreshed b, trace := trace ct @ [Refreshed]\<rparr>
                    else ct)"
    and "py_in ''accessToken'' (session entered) = Some True"
    and "map_of RENDER_MODELS (model entered) = Some model_name"
    and "getitem (session entered) ''accessToken'' = Some (JStr token)"
    and "injected = entered\<lparr>trace := trace entered @
           [Evaluate token (request (new_id b) prompt model_name entered)]\<rparr>"
  shows "prefix (trace injected) (trace (snd (snd (ask_stream loads prompt b ct))))"
proof (cases "evaluate_ok b")
  case False
  from ask_stream_token(1) [OF assms False] show ?thesis by simp
next
  case ok: True
  obtain ys ex polled where p: "poll_sync loads (polls b) [] injected = (ys, ex, polled)"
    by (cases "poll_sync loads (polls b) [] injected")
  from poll_sync_frame [OF p] have tp: "trace polled = trace injected" by simp
  note tk = ask_stream_token [OF assms]
  show ?thesis
  proof (cases "ex = Running")
    case True
    with tk(2) [OF ok] p tp show ?thesis by simp
  next
    case False
    show ?thesis
    proof (cases "cleanup_ok b")
      case True
      have "prefix (trace injected) (trace (polled\<lparr>trace := trace polled @ [CleanupDivs]\<rparr>))"
        using tp by simp
      also note trace_gen_title [of "polled\<lparr>trace := trace polled @ [CleanupDivs]\<rparr>" "title_ok b"]
      finally show ?thesis using tk(4) [OF ok p False True] by simp
    next
      case no_cleanup: False
      from tk(3) [OF ok p False no_cleanup] tp show ?thesis by simp
    qed
  qed
qed

text \<open>
  C8. Once the credential is found, the first thing either streaming ask does with the page
  is to evaluate the request code, and the request substituted into it is the dict of the
  claim: the identifier \<open>uuid.uuid4()\<close> returned in this activation, the prompt as the only
  part, the model (\<open>text-davinci-002-render-sha\<close>, in the synchronous class the entry of
  \<open>RENDER_MODELS\<close> for the client's model), and the conversation state of the client.
\<close>

theorem request_payload:
  "(\<not> locked st \<and> remaining_retry \<noteq> 0
      \<and> entered = (let s = st\<lparr>trace := trace st @ [Invoked remaining_retry], locked := True\<rparr> in
                   if session st = JObj [] then async_refresh_session loads (doc_first a) s
                   else s)
      \<and> py_in ''accessToken'' (session entered) = Some True
      \<and> getitem (session entered) ''accessToken'' = Some (JStr token)
    \<longrightarrow> prefix
          (trace entered @
           [Evaluate token
              (JObj [(''messages'',
                        JArr [JObj [(''id'', JStr (new_id a)),
                                    (''role'', JStr ''user''),
                                    (''content'',
                                       JObj [(''content_type'', JStr ''text''),
                                             (''parts'', JArr [JStr prompt])])]]),
                     (''model'', JStr ''text-davinci-002-render-sha''),
                     (''conversation_id'', conversation_id st),
                     (''parent_message_id'', parent_message_id st),
                     (''action'', JStr ''next'')])])
          (trace (snd (snd (async_ask_stream loads prompt remaining_retry (a # as) st)))))
   \<and> (py_in ''accessToken'' (session ct) = Some present
      \<and> sync_entered = (if \<not> present
                        then ct\<lparr>session := refreshed b, trace := trace ct @ [Refreshed]\<rparr>
                        else ct)
      \<and> py_in ''accessToken'' (session sync_entered) = Some True
      \<and> map_of RENDER_MODELS (model ct) = Some model_name
      \<and> getitem (session sync_entered) ''accessToken'' = Some (JStr sync_token)
    \<longrightarrow> prefix
          (trace sync_entered @
           [Evaluate sync_token
              (JObj [(''messages'',
                        JArr [JObj [(''id'', JStr (new_id b)),
                                    (''role'', JStr ''user''),
                                    (''content'',
                                       JObj [(''content_type'', JStr ''text''),
                                             (''parts'', JArr [JStr prompt])])]]),
                     (''model'', JStr model_name),
                     (''conversation_id'', conversation_id ct),
                     (''parent_message_id'', parent_message_id ct),
                     (''action'', JStr ''next'')])])
          (trace (snd (snd (ask_stream loads prompt b ct)))))"
proof (intro conjI impI)
  assume h: "\<not> locked st \<and> remaining_retry \<noteq> 0
      \<and> entered = (let s = st\<lparr>trace := trace st @ [Invoked remaining_retry], locked := True\<rparr> in
                   if session st = JObj [] then async_refresh_session loads (doc_first a) s
                   else s)
      \<and> py_in ''accessToken'' (session entered) = Some True
      \<and> getitem (session entered) ''accessToken'' = Some (JStr token)"
  then have same: "conversation_id entered = conversation_id st"
      "parent_message_id entered = parent_message_id st"
    by (auto simp: Let_def async_refresh_session_def split: option.splits)
  from h have "prefix
     (trace (entered\<lparr>trace := trace entered @
        [Evaluate token (request (new_id a) prompt ''text-davinci-002-render-sha'' entered)]\<rparr>))
     (trace (snd (snd (async_ask_stream loads prompt remaining_retry (a # as) st))))"
    by (intro stream_trace_injected [where ?st2.0 = entered and token = token]) auto
  then show "prefix
          (trace entered @
           [Evaluate token
              (JObj [(''messages'',
                        JArr [JObj [(''id'', JStr (new_id a)),
                                    (''role'', JStr ''user''),
                                    (''content'',
                                       JObj [(''content_type'', JStr ''text''),
                                             (''parts'', JArr [JStr prompt])])]]),
                     (''model'', JStr ''text-davinci-002-render-sha''),
                     (''conversation_id'', conversation_id st),
                     (''parent_message_id'', parent_message_id st),
                     (''action'', JStr ''next'')])])
          (trace (snd (snd (async_ask_stream loads prompt remaining_retry (a # as) st))))"
    by (simp add: request_def same)
next
  assume h: "py_in ''accessToken'' (session ct) = Some present
      \<and> sync_entered = (if \<not> present
                        then ct\<lparr>session := refreshed b, trace := trace ct @ [Refreshed]\<rparr>
                        else ct)
      \<and> py_in ''accessToken'' (session sync_entered) = Some True
      \<and> map_of RENDER_MODELS (model ct) = Some model_name
      \<and> getitem (session sync_entered) ''accessToken'' = Some (JStr sync_token)"
  then have same: "conversation_id sync_entered = conversation_id ct"
      "parent_message_id sync_entered = parent_message_id ct" "model sync_entered = model ct"
    by auto
  from h same have "prefix
     (trace (sync_entered\<lparr>trace := trace sync_entered @
        [Evaluate sync_token (request (new_id b) prompt model_name sync_entered)]\<rparr>))
     (trace (snd (snd (ask_stream loads prompt b ct))))"
    by (intro ask_stream_trace_injected [where entered = sync_entered and token = sync_token
          and present = present and model_name = model_name]) auto
  then show "prefix
          (trace sync_entered @
           [Evaluate sync_token
              (JObj [(''messages'',
                        JArr [JObj [(''id'', JStr (new_id b)),
                                    (''role'', JStr ''user''),
                                    (''content'',
                                       JObj [(''content_type'', JStr ''text''),
                                             (''parts'', JArr [JStr prompt])])]]),
                     (''model'', JStr model_name),
                     (''conversation_id'', conversation_id ct),
                     (''parent_message_id'', parent_message_id ct),
                     (''action'', JStr ''next'')])])
          (trace (snd (snd (ask_stream loads prompt b ct))))"
    by (simp add: request_def same)
qed

theorem request_payload_witness:
  "\<not> locked logged_in \<and> (2::int) \<noteq> 0
   \<and> py_in ''accessToken'' (session logged_in) = Some True
   \<and> getitem (session logged_in) ''accessToken'' = Some (JStr ''tok'')
   \<and> map_of RENDER_MODELS (model logged_in_sync) = Some ''text-davinci-002-render-sha''
   \<and> trace (snd (snd (async_ask_stream sample_loads ''Good night!'' 2
        [page_of True [seen 1 1 []]] logged_in)))
       = [Invoked 2,
          Evaluate ''tok''
            (JObj [(''messages'',
                      JArr [JObj [(''id'', JStr ''u1''),
                                  (''role'', JStr ''user''),
                                  (''content'',
                                     JObj [(''content_type'', JStr ''text''),
                                           (''parts'', JArr [JStr ''Good night!''])])]]),
                   (''model'', JStr ''text-davinci-002-render-sha''),
                   (''conversation_id'', JNull),
                   (''parent_message_id'', JStr ''p0''),
                   (''action'', JStr ''next'')]),
          CleanupDivs]
   \<and> trace (snd (snd (ask_stream sample_loads ''Good night!''
        (sync_page_of [seen 1 1 []]) logged_in_sync)))
       = [Evaluate ''tok''
            (JObj [(''messages'',
                      JArr [JObj [(''id'', JStr ''u1''),
                                  (''role'', JStr ''user''),
                                  (''content'',
                                     JObj [(''content_type'', JStr ''text''),
                                           (''parts'', JArr [JStr ''Good night!''])])]]),
                   (''model'', JStr ''text-davinci-002-render-sha''),
                   (''conversation_id'', JNull),
                   (''parent_message_id'', JStr ''p0''),
                   (''action'', JStr ''next'')]),
          CleanupDivs]"
  using request_payload [where st = logged_in and remaining_retry = 2
      and loads = sample_loads and a = "page_of True [seen 1 1 []]" and as = "[]"
      and entered = "logged_in\<lparr>trace := [Invoked 2], locked := True\<rparr>"
      and token = "''tok''" and prompt = "''Good night!''"
      and ct = logged_in_sync and present = True and sync_entered = logged_in_sync
      and b = "sync_page_of [seen 1 1 []]"
      and model_name = "''text-davinci-002-render-sha''" and sync_token = "''tok''"]
  by (simp add: logged_in_def logged_in_sync_def page_of_def sync_page_of_def seen_def
      py_in_def getitem_def RENDER_MODELS_def read_event_def request_def unlock_def
      ask_stream_def gen_title_def truthy_def)

section \<open>Retries made inside the lock\<close>

text \<open>
  What the failing input of C2 shows holds in general: a retry of \<open>async_ask_stream\<close>, after
  a timeout or after a failed injection, is invoked while the activation that makes it
  holds the lock, and waits for it; the call does not come back.
\<close>

lemma locked_refresh [simp]:
  "locked (async_refresh_session loads doc st) = locked st"
  by (simp add: async_refresh_session_def Let_def split: option.splits)

lemma retry_in_lock_blocks:
  assumes "\<not> locked st" and "n \<noteq> 0"
    and "st2 = (let st1 = st\<lparr>trace := trace st @ [Invoked n], locked := True\<rparr> in
                if session st = JObj [] then async_refresh_session loads (doc_first a) st1
                else st1)"
    and "py_in ''accessToken'' (session st2) = Some True"
    and "getitem (session st2) ''accessToken'' = Some (JStr token)"
    and "st3 = st2\<lparr>trace := trace st2 @
           [Evaluate token (request (new_id a) prompt ''text-davinci-002-render-sha'' st2)]\<rparr>"
    and "\<not> evaluate_ok a \<or> poll_async loads (polls a) [] None st3 = (ys, Else, st4)"
  shows "fst (snd (async_ask_stream loads prompt n (a # b # bs) st)) = Blocked"
proof -
  have l2: "locked st2" by (simp add: assms(3) Let_def)
  then have l3: "locked st3" by (simp add: assms(6))
  show ?thesis
  proof (cases "evaluate_ok a")
    case False
    from stream_token(1) [OF assms(1-6) False] l3 show ?thesis
      by (simp add: stream_locked leave_def)
  next
    case True
    with assms(7) have p: "poll_async loads (polls a) [] None st3 = (ys, Else, st4)" by simp
    from poll_async_frame [OF p] have "client.more st4 = client.more st3" by simp
    with l3 have "locked st4" by (cases st3, cases st4) simp
    with stream_token(5) [OF assms(1-6) True p] show ?thesis
      by (simp add: stream_locked leave_def)
  qed
qed

end
